theory Spec2Isabelle
  imports Main "HOL-Library.Sublist"
begin

section \<open>Strings and the built-in string operations used by the classifier\<close>

text \<open>
  A source string is a \<open>string\<close>: a list of characters, one \<open>char\<close> per code unit.
  The three \<open>String.prototype\<close> methods the constructor calls are modelled on lists;
  none of them can throw when the receiver is a string.
\<close>

definition startsWith :: "string \<Rightarrow> string \<Rightarrow> bool" where
  "startsWith s p = prefix p s"

text \<open>\<open>s.indexOf(p)\<close>: the first position at which \<open>p\<close> occurs in \<open>s\<close>, or \<open>-1\<close>.\<close>

fun indexOf_from :: "string \<Rightarrow> string \<Rightarrow> nat \<Rightarrow> int" where
  "indexOf_from [] p i = (if p = [] then int i else - 1)"
| "indexOf_from (c # cs) p i =
     (if prefix p (c # cs) then int i else indexOf_from cs p (Suc i))"

definition indexOf :: "string \<Rightarrow> string \<Rightarrow> int" where
  "indexOf s p = indexOf_from s p 0"

text \<open>
  \<open>s.substring(start)\<close> and \<open>s.substring(start, end)\<close>: negative indices count as
  \<open>0\<close>, indices beyond the length count as the length, and the two-argument form swaps
  its arguments when \<open>start > end\<close>.
\<close>

definition substring_from :: "string \<Rightarrow> int \<Rightarrow> string" where
  "substring_from s start = drop (nat start) s"

definition substring :: "string \<Rightarrow> int \<Rightarrow> int \<Rightarrow> string" where
  "substring s start end =
     (let lo = nat (min start end); hi = nat (max start end)
      in take (hi - lo) (drop lo s))"

section \<open>The classified token\<close>

text \<open>
  The fields of class \<open>Argument\<close>. The field \<open>value\<close> of the source (\<open>string | null\<close>) is
  \<open>value_opt\<close> here, with \<open>None\<close> for \<open>null\<close>.
\<close>

record Argument =
  arg :: string
  key :: string
  value_opt :: "string option"
  flag :: bool
  inverted :: bool
  truthy :: "string list"
  falsey :: "string list"

definition constructor :: "string \<Rightarrow> Argument" where
  "constructor a =
     (let fresh = \<lparr> arg = a, key = '''', value_opt = None, flag = False, inverted = False,
                     truthy = [''true'', ''1'', ''yes'', ''y'', ''on''],
                     falsey = [''false'', ''0'', ''no'', ''n'', ''off''] \<rparr>
      in if a = ''--'' then fresh \<lparr> key := ''--'' \<rparr>
         else if startsWith a ''--'' then
           (let index = indexOf a ''='';
                k = (if index = - 1 then substring_from a 2 else substring a 2 index);
                v = (if index = - 1 then None else Some (substring_from a (index + 1)))
            in if startsWith k ''no-''
               then fresh \<lparr> key := substring_from k 3, value_opt := v, flag := True,
                             inverted := True \<rparr>
               else fresh \<lparr> key := k, value_opt := v, flag := True \<rparr>)
         else fresh \<lparr> key := '''', value_opt := Some a \<rparr>)"

section \<open>Values, fallback options and errors\<close>

text \<open>
  The generic slot type \<open>T\<close> of \<open>FallbackOptions<T>\<close> and the \<open>any\<close> that \<open>fallback\<close>
  returns range over source values. \<open>Undefined\<close> is an absent slot, \<open>Null\<close> an explicit
  \<open>null\<close>, \<open>Str\<close> a string, \<open>Numv\<close> a number, and \<open>Other\<close> any further value (a
  boolean, an object). A number is \<open>NaN\<close> or a proper number of an arbitrary type \<open>'n\<close>.
\<close>

datatype 'n jsnumber = NaN | Num 'n

datatype ('n, 'o) jsval = Undefined | Null | Str string | Numv "'n jsnumber" | Other 'o

text \<open>The test \<open>x == null\<close> holds of \<open>null\<close> and \<open>undefined\<close> only.\<close>

fun nullish :: "('n, 'o) jsval \<Rightarrow> bool" where
  "nullish Undefined = True"
| "nullish Null = True"
| "nullish _ = False"

record ('n, 'o) FallbackOptions =
  enabled :: "('n, 'o) jsval"
  disabled :: "('n, 'o) jsval"
  enabledEmpty :: "('n, 'o) jsval"
  disabledEmpty :: "('n, 'o) jsval"

text \<open>The default \<open>{}\<close> of the options parameter: every slot absent.\<close>

definition no_options :: "('n, 'o) FallbackOptions" where
  "no_options = \<lparr> enabled = Undefined, disabled = Undefined,
                  enabledEmpty = Undefined, disabledEmpty = Undefined \<rparr>"

text \<open>
  Class \<open>ArgumentError\<close> adds three fields with fixed initial values to its base class
  \<open>Errlop\<close>, which is not part of this repository. Of an object of the base class only
  the \<open>message\<close> is kept: the string handed to the constructor. \<open>ArgumentError_of msg\<close> is
  the object that the class builds once the base class has accepted \<open>msg\<close>.
\<close>

record ArgumentError =
  message :: string
  exitCode :: int
  code :: string
  orphanStack :: string

definition ArgumentError_of :: "string \<Rightarrow> ArgumentError" where
  "ArgumentError_of msg =
     \<lparr> message = msg, exitCode = 22, code = ''EINVAL'', orphanStack = '''' \<rparr>"

text \<open>
  What the methods of \<open>Argument\<close> throw. The constructor of the base class refuses a
  falsy input, which for a string is the empty string: it throws a plain \<open>Error\<close> of its
  own instead of building the object. That error is \<open>PlainError\<close>; it is no
  \<open>ArgumentError\<close> and has neither \<open>exitCode\<close> nor \<open>code\<close>, and the text of its message is
  not modelled. \<open>ArgErr\<close> is an \<open>ArgumentError\<close> that was built and thrown.
\<close>

datatype thrown_error = PlainError | ArgErr ArgumentError

text \<open>
  The expression \<open>new ArgumentError(msg)\<close>: \<open>Inl\<close> when the base class throws, \<open>Inr\<close> of
  the new object otherwise.
\<close>

definition new_ArgumentError :: "string \<Rightarrow> thrown_error + ArgumentError" where
  "new_ArgumentError msg =
     (if msg = [] then Inl PlainError else Inr (ArgumentError_of msg))"

text \<open>
  A method of return type \<open>never\<close> always throws: its result is \<open>Inl\<close> of the error thrown.
  A method that may throw returns \<open>thrown_error + 'a\<close>. In \<open>throw new ArgumentError(msg)\<close>
  the error thrown is the one of the constructor when it throws, the new object otherwise.
\<close>

definition Argument_error :: "string \<Rightarrow> thrown_error + 'a" where
  "Argument_error msg =
     (case new_ArgumentError msg of Inl x \<Rightarrow> Inl x | Inr e \<Rightarrow> Inl (ArgErr e))"

definition Argument_help :: "string \<Rightarrow> thrown_error + 'a" where
  "Argument_help help_text =
     (case new_ArgumentError help_text of Inl x \<Rightarrow> Inl x | Inr e \<Rightarrow> Inl (ArgErr e))"

definition error :: "Argument \<Rightarrow> string \<Rightarrow> thrown_error + 'a" where
  "error this msg = Argument_error msg"

definition unknown :: "Argument \<Rightarrow> thrown_error + 'a" where
  "unknown this =
     error this (if flag this then ''Unknown flag: '' @ arg this
                 else ''Unknown argument '' @ arg this)"

section \<open>Fallback resolution and the typed coercions\<close>

definition fallback ::
  "Argument \<Rightarrow> string \<Rightarrow> ('n, 'o) FallbackOptions \<Rightarrow> thrown_error + ('n, 'o) jsval" where
  "fallback this err opts =
     (case value_opt this of
        None \<Rightarrow>
          if inverted this then
            (if nullish (disabled opts) then error this err else Inr (disabled opts))
          else
            (if nullish (enabled opts) then error this err else Inr (enabled opts))
      | Some v \<Rightarrow>
          if v = '''' then
            (if inverted this then
               (if nullish (enabledEmpty opts) then error this err else Inr (enabledEmpty opts))
             else
               (if nullish (disabledEmpty opts) then error this err else Inr (disabledEmpty opts)))
          else Inr (Str v))"

definition string_error :: "Argument \<Rightarrow> string" where
  "string_error this =
     ''Argument '' @ arg this @ '' must have a string value, e.g. '' @
     (if flag this then ''--'' @ key this @ ''=string'' else ''<string>'')"

definition string_arg ::
  "Argument \<Rightarrow> ('n, 'o) FallbackOptions \<Rightarrow> thrown_error + ('n, 'o) jsval" where
  "string_arg this opts = fallback this (string_error this) opts"

text \<open>
  The built-in conversion \<open>Number(v)\<close>. It is the identity on numbers; the numeric value
  of a string and of any other kind of value is computed outside this program and enters
  as the parameters \<open>str_num\<close> and \<open>other_num\<close>.
\<close>

fun Number ::
  "(string \<Rightarrow> 'n jsnumber) \<Rightarrow> ('o \<Rightarrow> 'n jsnumber) \<Rightarrow> ('n::zero, 'o) jsval \<Rightarrow> 'n jsnumber" where
  "Number str_num other_num Undefined = NaN"
| "Number str_num other_num Null = Num 0"
| "Number str_num other_num (Str s) = str_num s"
| "Number str_num other_num (Numv n) = n"
| "Number str_num other_num (Other v) = other_num v"

fun isNaN :: "'n jsnumber \<Rightarrow> bool" where
  "isNaN NaN = True"
| "isNaN (Num _) = False"

definition number_error :: "Argument \<Rightarrow> string" where
  "number_error this =
     ''Argument '' @ arg this @ '' must have a number value, e.g. '' @
     (if flag this then ''--'' @ key this @ ''=123'' else ''123'')"

definition number ::
  "(string \<Rightarrow> 'n jsnumber) \<Rightarrow> ('o \<Rightarrow> 'n jsnumber) \<Rightarrow> Argument \<Rightarrow>
   ('n::zero, 'o) FallbackOptions \<Rightarrow> thrown_error + 'n jsnumber" where
  "number str_num other_num this opts =
     (case fallback this (number_error this) opts of
        Inl e \<Rightarrow> Inl e
      | Inr v \<Rightarrow>
          (let n = (if nullish v \<or> v = Str '''' then NaN else Number str_num other_num v)
           in if isNaN n then error this (number_error this) else Inr n))"

definition boolean_error :: "Argument \<Rightarrow> string" where
  "boolean_error this =
     ''Argument '' @ arg this @ '' must have a boolean value, e.g. '' @
     (if flag this
      then ''--'' @ key this @ '' or --no-'' @ key this @ '' or --'' @ key this @ ''=yes''
      else ''yes'')"

definition boolean :: "Argument \<Rightarrow> thrown_error + bool" where
  "boolean this =
     (case value_opt this of
        None \<Rightarrow> Inr (\<not> inverted this)
      | Some v \<Rightarrow>
          if v = '''' then Inr (\<not> inverted this)
          else if v \<in> set (truthy this) then (if inverted this then Inr False else Inr True)
          else if v \<in> set (falsey this) then (if inverted this then Inr True else Inr False)
          else error this (boolean_error this))"

section \<open>The process-exit adapter\<close>

text \<open>
  White space as the pattern \<open>\s\<close> and \<open>trim\<close> see it, among the code units a \<open>char\<close>
  can hold: tab, line feed, vertical tab, form feed, carriage return, space and the
  no-break space.
\<close>

definition isWhiteSpace :: "char \<Rightarrow> bool" where
  "isWhiteSpace c =
     (c \<in> set [CHR 0x09, CHR 0x0A, CHR 0x0B, CHR 0x0C, CHR 0x0D, CHR 0x20, CHR 0xA0])"

text \<open>\<open>s.split('\n')\<close>: the list of lines, never empty.\<close>

fun split_lines :: "string \<Rightarrow> string list" where
  "split_lines [] = [[]]"
| "split_lines (c # cs) =
     (if c = CHR 0x0A then [] # split_lines cs
      else (case split_lines cs of [] \<Rightarrow> [[c]] | l # ls \<Rightarrow> (c # l) # ls))"

text \<open>\<open>ls.join('\n')\<close>.\<close>

fun join_lines :: "string list \<Rightarrow> string" where
  "join_lines [] = []"
| "join_lines [l] = l"
| "join_lines (l # ls) = l @ [CHR 0x0A] @ join_lines ls"

text \<open>\<open>s.replace(pat, rep)\<close> with a string pattern: only the first occurrence is replaced.\<close>

fun replace_first :: "string \<Rightarrow> string \<Rightarrow> string \<Rightarrow> string" where
  "replace_first [] pat rep = (if pat = [] then rep else [])"
| "replace_first (c # cs) pat rep =
     (if prefix pat (c # cs) then rep @ drop (length pat) (c # cs)
      else c # replace_first cs pat rep)"

definition trim :: "string \<Rightarrow> string" where
  "trim s = rev (dropWhile isWhiteSpace (rev (dropWhile isWhiteSpace s)))"

datatype js_exception = TypeError

text \<open>
  \<open>lines[0] || lines[1]\<close> is \<open>undefined\<close> when the first line is empty and there is no
  second one; calling \<open>match\<close> on it throws a \<open>TypeError\<close>.
\<close>

definition trimIndentation :: "string \<Rightarrow> js_exception + string" where
  "trimIndentation s =
     (let lines = split_lines s;
          firstLine = (case lines of
                         [] \<Rightarrow> None
                       | l0 # rest \<Rightarrow>
                           if l0 \<noteq> [] then Some l0
                           else (case rest of [] \<Rightarrow> None | l1 # _ \<Rightarrow> Some l1))
      in case firstLine of
           None \<Rightarrow> Inl TypeError
         | Some fl \<Rightarrow>
             (let indentation = takeWhile isWhiteSpace fl
              in if indentation \<noteq> []
                 then Inr (join_lines (map (\<lambda>line. replace_first line indentation '''') lines))
                 else Inr s))"

text \<open>
  The \<open>error?: any\<close> that \<open>exit\<close> receives, reduced to what \<open>exit\<close> reads of it: the result
  of \<open>toString()\<close>, the property \<open>exitCode\<close> and the property \<open>message\<close> (\<open>None\<close> when the
  property is missing). No error at all is \<open>None\<close> of type \<open>thrown option\<close>.
\<close>

record thrown =
  thrown_string :: string
  thrown_exitCode :: "int option"
  thrown_message :: "string option"

text \<open>
  An \<open>ArgumentError\<close> as \<open>exit\<close> sees it. Its \<open>toString\<close> is the one of the built-in
  \<open>Error\<close>, which joins the error's name and message; the name is set outside this
  program and is a parameter.
\<close>

definition Error_toString :: "string \<Rightarrow> string \<Rightarrow> string" where
  "Error_toString name msg =
     (if name = [] then msg else if msg = [] then name else name @ '': '' @ msg)"

definition thrown_of :: "string \<Rightarrow> ArgumentError \<Rightarrow> thrown" where
  "thrown_of name e =
     \<lparr> thrown_string = Error_toString name (message e),
       thrown_exitCode = Some (exitCode e),
       thrown_message = Some (message e) \<rparr>"

text \<open>How the process ends: what was written to the error stream, and the exit code.\<close>

record process_end =
  stderr :: "string list"
  status :: int

fun Argument_exit :: "string \<Rightarrow> thrown option \<Rightarrow> js_exception + process_end" where
  "Argument_exit help_text None =
     (case trimIndentation help_text of
        Inl x \<Rightarrow> Inl x
      | Inr t \<Rightarrow> Inr \<lparr> stderr = [trim t], status = 0 \<rparr>)"
| "Argument_exit help_text (Some e) =
     (let string = thrown_string e
      in if thrown_exitCode e = Some 22 \<or> string = [] then
           (case trimIndentation help_text of
              Inl x \<Rightarrow> Inl x
            | Inr t \<Rightarrow>
                if string \<noteq> [] \<and> thrown_message e \<noteq> Some help_text
                then Inr \<lparr> stderr = [trim t, [CHR 0x0A] @ string], status = 22 \<rparr>
                else Inr \<lparr> stderr = [trim t], status = 0 \<rparr>)
         else Inr \<lparr> stderr = [string],
                    status = (case thrown_exitCode e of None \<Rightarrow> 1 | Some c \<Rightarrow> c) \<rparr>)"

definition Argument_catch :: "string \<Rightarrow> thrown option \<Rightarrow> js_exception + process_end" where
  "Argument_catch help_text = (\<lambda>e. Argument_exit help_text e)"

section \<open>The specification's invariants of a classified token\<close>

text \<open>
  These three predicates follow the words of the specification, not the code: a token is
  the sentinel when its key is \<open>--\<close> and it is no flag; it is positional when it is no
  flag, has the empty key and its value is the raw text. A record is well formed when it
  is exactly one of flag, sentinel and positional, is inverted only if it is a flag, and
  has no value exactly when it is a flag without \<open>=\<close> or the sentinel.
\<close>

definition spec_sentinel :: "Argument \<Rightarrow> bool" where
  "spec_sentinel t \<longleftrightarrow> key t = ''--'' \<and> \<not> flag t"

definition spec_positional :: "Argument \<Rightarrow> bool" where
  "spec_positional t \<longleftrightarrow> \<not> flag t \<and> key t = '''' \<and> value_opt t = Some (arg t)"

definition spec_well_formed :: "Argument \<Rightarrow> bool" where
  "spec_well_formed t \<longleftrightarrow>
     (flag t \<or> spec_sentinel t \<or> spec_positional t) \<and>
     \<not> (flag t \<and> spec_sentinel t) \<and> \<not> (flag t \<and> spec_positional t) \<and>
     \<not> (spec_sentinel t \<and> spec_positional t) \<and>
     (inverted t \<longrightarrow> flag t) \<and>
     (value_opt t = None \<longleftrightarrow> (flag t \<and> CHR ''='' \<notin> set (arg t)) \<or> spec_sentinel t)"

section \<open>Properties of the classifier\<close>

subsection \<open>Searching for a single character\<close>

lemma indexOf_from_char:
  "indexOf_from s [c] i =
     (if c \<in> set s then int i + int (length (takeWhile (\<lambda>x. x \<noteq> c) s)) else - 1)"
  by (induction s arbitrary: i) auto

lemma takeWhile_upto: "c \<notin> set k \<Longrightarrow> takeWhile (\<lambda>x. x \<noteq> c) (k @ c # v) = k"
  by (induction k) auto

lemma indexOf_absent: "c \<notin> set s \<Longrightarrow> indexOf s [c] = - 1"
  by (simp add: indexOf_def indexOf_from_char)

lemma indexOf_first: "c \<notin> set k \<Longrightarrow> indexOf (k @ c # v) [c] = int (length k)"
  by (simp add: indexOf_def indexOf_from_char takeWhile_upto)

subsection \<open>The three shapes of a token\<close>

lemma constructor_sentinel:
  "constructor ''--'' =
     \<lparr> arg = ''--'', key = ''--'', value_opt = None, flag = False, inverted = False,
       truthy = [''true'', ''1'', ''yes'', ''y'', ''on''],
       falsey = [''false'', ''0'', ''no'', ''n'', ''off''] \<rparr>"
  by (simp add: constructor_def)

lemma constructor_positional:
  assumes "\<not> startsWith a ''--''"
  shows "constructor a =
     \<lparr> arg = a, key = '''', value_opt = Some a, flag = False, inverted = False,
       truthy = [''true'', ''1'', ''yes'', ''y'', ''on''],
       falsey = [''false'', ''0'', ''no'', ''n'', ''off''] \<rparr>"
proof -
  from assms have "a \<noteq> ''--''"
    by (auto simp: startsWith_def)
  with assms show ?thesis
    by (simp add: constructor_def)
qed

lemma constructor_no_eq:
  assumes "b \<noteq> []" "CHR ''='' \<notin> set b"
  shows "constructor (''--'' @ b) =
     \<lparr> arg = ''--'' @ b, key = (if prefix ''no-'' b then drop 3 b else b), value_opt = None,
       flag = True, inverted = prefix ''no-'' b,
       truthy = [''true'', ''1'', ''yes'', ''y'', ''on''],
       falsey = [''false'', ''0'', ''no'', ''n'', ''off''] \<rparr>"
proof -
  have "indexOf (''--'' @ b) ''='' = - 1"
    using assms(2) by (intro indexOf_absent) simp
  then show ?thesis
    using assms(1) by (simp add: constructor_def Let_def startsWith_def substring_from_def)
qed

lemma constructor_eq:
  assumes "CHR ''='' \<notin> set k"
  shows "constructor (''--'' @ k @ ''='' @ v) =
     \<lparr> arg = ''--'' @ k @ ''='' @ v, key = (if prefix ''no-'' k then drop 3 k else k),
       value_opt = Some v, flag = True, inverted = prefix ''no-'' k,
       truthy = [''true'', ''1'', ''yes'', ''y'', ''on''],
       falsey = [''false'', ''0'', ''no'', ''n'', ''off''] \<rparr>"
proof -
  have "indexOf ((''--'' @ k) @ CHR ''='' # v) ''='' = int (length (''--'' @ k))"
    using assms by (intro indexOf_first) simp
  then have i: "indexOf (''--'' @ k @ ''='' @ v) ''='' = 2 + int (length k)"
    by simp
  have n: "nat (2 + int (length k)) = 2 + length k" "nat (3 + int (length k)) = 3 + length k"
    by simp_all
  have d: "drop (3 + length k) (CHR ''-'' # CHR ''-'' # k @ CHR ''='' # v) = v"
    by (simp add: numeral_3_eq_3)
  show ?thesis
    using i by (simp add: constructor_def Let_def startsWith_def substring_from_def
        substring_def n d)
qed

text \<open>Every token with the flag prefix, the sentinel apart, has one of the two flag shapes.\<close>

lemma flag_shapes:
  assumes "startsWith a ''--''" "a \<noteq> ''--''"
  obtains b where "a = ''--'' @ b" "b \<noteq> []" "CHR ''='' \<notin> set b"
  | k v where "a = ''--'' @ k @ ''='' @ v" "CHR ''='' \<notin> set k"
proof -
  from assms(1) obtain b where b: "a = ''--'' @ b"
    by (auto simp: startsWith_def prefix_def)
  with assms(2) have ne: "b \<noteq> []"
    by auto
  show thesis
  proof (cases "CHR ''='' \<in> set b")
    case False
    with b ne that(1) show thesis
      by blast
  next
    case True
    then obtain k v where "b = k @ CHR ''='' # v" "CHR ''='' \<notin> set k"
      by (meson split_list_first)
    with b that(2) show thesis
      by simp
  qed
qed

lemma constructor_arg: "arg (constructor a) = a"
  by (simp add: constructor_def Let_def)

lemma constructor_truthy: "truthy (constructor a) = [''true'', ''1'', ''yes'', ''y'', ''on'']"
  by (simp add: constructor_def Let_def)

lemma constructor_falsey: "falsey (constructor a) = [''false'', ''0'', ''no'', ''n'', ''off'']"
  by (simp add: constructor_def Let_def)

lemma constructor_flag: "flag (constructor a) \<longleftrightarrow> startsWith a ''--'' \<and> a \<noteq> ''--''"
  by (simp add: constructor_def Let_def)

lemma constructor_inverted_flag: "inverted (constructor a) \<Longrightarrow> flag (constructor a)"
  by (simp add: constructor_def Let_def split: if_splits)

subsection \<open>Flags\<close>

text \<open>
  Claim C3. A token that starts with \<open>--\<close> and is not exactly \<open>--\<close> is a flag. It is
  split at its first \<open>=\<close> only: without any \<open>=\<close> the value is \<open>null\<close> and the key is the
  text after the prefix; with one, the key is the text between the prefix and the first
  \<open>=\<close> and the value is all that follows it, possibly empty. A key that starts with
  \<open>no-\<close> loses these three characters and the token is inverted.
\<close>

theorem flag_classification:
  assumes "startsWith a ''--''" and "a \<noteq> ''--''"
  shows "flag (constructor a) \<and>
     (CHR ''='' \<notin> set a \<longrightarrow>
        value_opt (constructor a) = None \<and>
        key (constructor a) = (if startsWith (drop 2 a) ''no-'' then drop 5 a else drop 2 a) \<and>
        inverted (constructor a) = startsWith (drop 2 a) ''no-'') \<and>
     (a = ''--'' @ k @ ''='' @ v \<and> CHR ''='' \<notin> set k \<longrightarrow>
        value_opt (constructor a) = Some v \<and>
        key (constructor a) = (if startsWith k ''no-'' then drop 3 k else k) \<and>
        inverted (constructor a) = startsWith k ''no-'')"
proof (intro conjI impI)
  show "flag (constructor a)"
    using assms by (simp add: constructor_flag)
next
  assume "CHR ''='' \<notin> set a"
  moreover from assms obtain b where a: "a = ''--'' @ b" and "b \<noteq> []"
    by (auto simp: startsWith_def prefix_def)
  ultimately have c: "constructor a =
     \<lparr> arg = ''--'' @ b, key = (if prefix ''no-'' b then drop 3 b else b), value_opt = None,
       flag = True, inverted = prefix ''no-'' b,
       truthy = [''true'', ''1'', ''yes'', ''y'', ''on''],
       falsey = [''false'', ''0'', ''no'', ''n'', ''off''] \<rparr>" and b: "drop 2 a = b"
    using constructor_no_eq [of b] by auto
  show "value_opt (constructor a) = None"
    by (simp add: c)
  have d5: "drop 5 a = drop 3 b"
    using a by (simp add: drop_Cons')
  have kk: "key (constructor a) = (if prefix ''no-'' b then drop 3 b else b)"
    by (simp add: c)
  show "key (constructor a) = (if startsWith (drop 2 a) ''no-'' then drop 5 a else drop 2 a)"
    unfolding kk b d5 startsWith_def by (rule refl)
  show "inverted (constructor a) = startsWith (drop 2 a) ''no-''"
    by (simp add: c b startsWith_def)
next
  assume h: "a = ''--'' @ k @ ''='' @ v \<and> CHR ''='' \<notin> set k"
  then have c: "constructor a =
     \<lparr> arg = ''--'' @ k @ ''='' @ v, key = (if prefix ''no-'' k then drop 3 k else k),
       value_opt = Some v, flag = True, inverted = prefix ''no-'' k,
       truthy = [''true'', ''1'', ''yes'', ''y'', ''on''],
       falsey = [''false'', ''0'', ''no'', ''n'', ''off''] \<rparr>"
    using constructor_eq [of k v] by simp
  show "value_opt (constructor a) = Some v"
    by (simp add: c)
  show "key (constructor a) = (if startsWith k ''no-'' then drop 3 k else k)"
    by (simp add: c startsWith_def)
  show "inverted (constructor a) = startsWith k ''no-''"
    by (simp add: c startsWith_def)
qed

text \<open>
  The theorem at \<open>--no-\<close> (empty key, still a flag, inverted), at \<open>--string=a=b\<close> (only
  the first \<open>=\<close> splits) and at \<open>--flag=\<close> (an empty value, not \<open>null\<close>).
\<close>

theorem flag_classification_witness:
  "startsWith ''--no-'' ''--'' \<and> ''--no-'' \<noteq> ''--'' \<and>
   flag (constructor ''--no-'') \<and> key (constructor ''--no-'') = '''' \<and>
   inverted (constructor ''--no-'') \<and> value_opt (constructor ''--no-'') = None \<and>
   flag (constructor ''--string=a=b'') \<and> key (constructor ''--string=a=b'') = ''string'' \<and>
   value_opt (constructor ''--string=a=b'') = Some ''a=b'' \<and>
   \<not> inverted (constructor ''--string=a=b'') \<and>
   key (constructor ''--flag='') = ''flag'' \<and> value_opt (constructor ''--flag='') = Some ''''"
proof -
  have h: "startsWith ''--no-'' ''--''" "startsWith ''--string=a=b'' ''--''"
    "startsWith ''--flag='' ''--''"
    by (simp_all add: startsWith_def)
  have n: "''--no-'' \<noteq> ''--''" "''--string=a=b'' \<noteq> ''--''" "''--flag='' \<noteq> ''--''"
    by simp_all
  show ?thesis
    using flag_classification [OF h(1) n(1), of "[]" "[]"]
      flag_classification [OF h(2) n(2), of "''string''" "''a=b''"]
      flag_classification [OF h(3) n(3), of "''flag''" "[]"] h(1)
    by (simp add: startsWith_def)
qed

subsection \<open>The sentinel\<close>

text \<open>
  Claim C4. The token \<open>--\<close> is classified as the sentinel: key \<open>--\<close>, no value, not a
  flag, not inverted. It is the only token whose key is \<open>--\<close> while it is no flag: any
  other token with key \<open>--\<close> is a flag, and a token without the flag prefix has the empty
  key.
\<close>

theorem sentinel_unique:
  "key (constructor ''--'') = ''--'' \<and> value_opt (constructor ''--'') = None \<and>
   flag (constructor ''--'') = False \<and> inverted (constructor ''--'') = False \<and>
   (key (constructor a) = ''--'' \<and> flag (constructor a) = False \<longleftrightarrow> a = ''--'') \<and>
   (key (constructor a) = ''--'' \<and> a \<noteq> ''--'' \<longrightarrow> flag (constructor a) = True) \<and>
   (\<not> startsWith a ''--'' \<longrightarrow> key (constructor a) = '''')"
proof -
  have pos: "key (constructor a) = ''''" if "\<not> startsWith a ''--''"
    using constructor_positional [OF that] by simp
  have "a = ''--''" if "key (constructor a) = ''--''" "\<not> flag (constructor a)"
  proof (rule ccontr)
    assume "a \<noteq> ''--''"
    with that(2) have "\<not> startsWith a ''--''"
      by (simp add: constructor_flag)
    with that(1) pos show False
      by simp
  qed
  moreover have "flag (constructor a)" if "key (constructor a) = ''--''" "a \<noteq> ''--''"
    using that pos by (cases "startsWith a ''--''") (auto simp: constructor_flag)
  ultimately show ?thesis
    using pos by (auto simp: constructor_sentinel)
qed

text \<open>The theorem at \<open>----\<close> (key \<open>--\<close>, but a flag), at \<open>-\<close> and at \<open>--x\<close>.\<close>

theorem sentinel_unique_witness:
  "key (constructor ''----'') = ''--'' \<and> ''----'' \<noteq> ''--'' \<and> flag (constructor ''----'') = True \<and>
   \<not> startsWith ''-'' ''--'' \<and> key (constructor ''-'') = '''' \<and>
   \<not> (key (constructor ''--x'') = ''--'' \<and> flag (constructor ''--x'') = False)"
proof -
  have k: "key (constructor ''----'') = ''--''"
    using constructor_no_eq [of "''--''"] by simp
  have n: "\<not> startsWith ''-'' ''--''"
    by (simp add: startsWith_def)
  show ?thesis
    using sentinel_unique [of "''----''"] sentinel_unique [of "''-''"]
      sentinel_unique [of "''--x''"] k n
    by simp
qed

subsection \<open>Positional arguments\<close>

text \<open>
  Claim C5. A token that does not start with \<open>--\<close>, the empty token included, is
  classified as positional: not a flag, empty key, not inverted, and its value is the
  token itself.
\<close>

theorem positional_classification:
  assumes "\<not> startsWith a ''--''"
  shows "flag (constructor a) = False \<and> key (constructor a) = '''' \<and>
         inverted (constructor a) = False \<and> value_opt (constructor a) = Some a"
  using constructor_positional [OF assms] by simp

text \<open>The theorem at the empty token and at \<open>-x=1\<close>.\<close>

theorem positional_classification_witness:
  "\<not> startsWith '''' ''--'' \<and> flag (constructor '''') = False \<and> key (constructor '''') = '''' \<and>
   inverted (constructor '''') = False \<and> value_opt (constructor '''') = Some '''' \<and>
   \<not> startsWith ''-x=1'' ''--'' \<and> flag (constructor ''-x=1'') = False \<and>
   key (constructor ''-x=1'') = '''' \<and> inverted (constructor ''-x=1'') = False \<and>
   value_opt (constructor ''-x=1'') = Some ''-x=1''"
proof -
  have h: "\<not> startsWith '''' ''--''" "\<not> startsWith ''-x=1'' ''--''"
    by (simp_all add: startsWith_def)
  show ?thesis
    using positional_classification [OF h(1)] positional_classification [OF h(2)] h
    by simp
qed

section \<open>Properties of the resolver\<close>

subsection \<open>Failures\<close>

lemma error_throws:
  "error this msg = Inl (if msg = [] then PlainError else ArgErr (ArgumentError_of msg))"
  by (simp add: error_def Argument_error_def new_ArgumentError_def)

lemma string_error_not_empty: "string_error this \<noteq> []"
  by (simp add: string_error_def)

lemma number_error_not_empty: "number_error this \<noteq> []"
  by (simp add: number_error_def)

lemma boolean_error_not_empty: "boolean_error this \<noteq> []"
  by (simp add: boolean_error_def)

lemma fallback_failure:
  "fallback this err opts = Inl e \<Longrightarrow>
     e = (if err = [] then PlainError else ArgErr (ArgumentError_of err))"
  by (auto simp: fallback_def error_throws split: option.splits if_splits)

lemma string_failure:
  "string_arg this opts = Inl e \<Longrightarrow> e = ArgErr (ArgumentError_of (string_error this))"
  by (auto simp: string_arg_def string_error_not_empty dest: fallback_failure)

lemma number_failure:
  "number str_num other_num this opts = Inl e \<Longrightarrow>
     e = ArgErr (ArgumentError_of (number_error this))"
  by (auto simp: number_def Let_def error_throws number_error_not_empty
      dest: fallback_failure split: sum.splits if_splits)

lemma boolean_failure:
  "boolean this = Inl e \<Longrightarrow> e = ArgErr (ArgumentError_of (boolean_error this))"
  by (auto simp: boolean_def error_throws boolean_error_not_empty
      split: option.splits if_splits)

lemma boolean_message: "sublist ''must have a boolean value'' (boolean_error this)"
proof -
  have "boolean_error this =
      (''Argument '' @ arg this @ '' '') @ ''must have a boolean value'' @
      ('', e.g. '' @ (if flag this
         then ''--'' @ key this @ '' or --no-'' @ key this @ '' or --'' @ key this @ ''=yes''
         else ''yes''))"
    by (simp add: boolean_error_def)
  then show ?thesis
    by (simp only: sublist_appendI)
qed

lemma number_message: "sublist ''must have a number value'' (number_error this)"
proof -
  have "number_error this =
      (''Argument '' @ arg this @ '' '') @ ''must have a number value'' @
      ('', e.g. '' @ (if flag this then ''--'' @ key this @ ''=123'' else ''123''))"
    by (simp add: number_error_def)
  then show ?thesis
    by (simp only: sublist_appendI)
qed

subsection \<open>Tokens used as examples\<close>

lemma tokens_x:
  "value_opt (constructor ''--x'') = None" "\<not> inverted (constructor ''--x'')"
  "value_opt (constructor ''--no-x'') = None" "inverted (constructor ''--no-x'')"
  "value_opt (constructor ''--x='') = Some ''''" "\<not> inverted (constructor ''--x='')"
  "value_opt (constructor ''--no-x='') = Some ''''" "inverted (constructor ''--no-x='')"
  "value_opt (constructor ''--x=val'') = Some ''val''"
  "value_opt (constructor ''--no-x=val'') = Some ''val''"
  by code_simp+

lemma tokens_flag:
  "value_opt (constructor ''--flag'') = None" "\<not> inverted (constructor ''--flag'')"
  "value_opt (constructor ''--no-flag'') = None" "inverted (constructor ''--no-flag'')"
  "value_opt (constructor ''--flag=no'') = Some ''no''" "\<not> inverted (constructor ''--flag=no'')"
  "value_opt (constructor ''--no-flag=no'') = Some ''no''"
  "inverted (constructor ''--no-flag=no'')"
  "value_opt (constructor ''--flag=Yes'') = Some ''Yes''"
  "value_opt (constructor ''--no-flag='') = Some ''''" "inverted (constructor ''--no-flag='')"
  "value_opt (constructor ''--flag=yes'') = Some ''yes''"
  "\<not> inverted (constructor ''--flag=yes'')"
  "value_opt (constructor ''--no-flag=on'') = Some ''on''"
  "inverted (constructor ''--no-flag=on'')"
  by code_simp+

lemma tokens_n:
  "value_opt (constructor ''--n'') = None" "\<not> inverted (constructor ''--n'')"
  "value_opt (constructor ''--n=42'') = Some ''42''"
  "value_opt (constructor ''--n=abc'') = Some ''abc''"
  by code_simp+

subsection \<open>The fallback table\<close>

text \<open>
  Claim C1. For every classified token and every options record, \<open>fallback\<close> follows the
  table: no value and not inverted gives the slot \<open>enabled\<close>; no value and inverted gives
  \<open>disabled\<close>; the empty value and not inverted gives \<open>disabledEmpty\<close>; the empty value
  and inverted gives \<open>enabledEmpty\<close>; in each case it throws when the slot holds
  nothing: the \<open>ArgumentError\<close> with the given message, or the plain error of the base
  class when that message is empty. A non-empty value is returned as it is, whatever the
  options and the inversion.
\<close>

theorem fallback_table:
  "(value_opt (constructor a) = None \<and> \<not> inverted (constructor a) \<longrightarrow>
      fallback (constructor a) err opts =
        (if nullish (enabled opts)
         then Inl (if err = [] then PlainError else ArgErr (ArgumentError_of err))
         else Inr (enabled opts))) \<and>
   (value_opt (constructor a) = None \<and> inverted (constructor a) \<longrightarrow>
      fallback (constructor a) err opts =
        (if nullish (disabled opts)
         then Inl (if err = [] then PlainError else ArgErr (ArgumentError_of err))
         else Inr (disabled opts))) \<and>
   (value_opt (constructor a) = Some '''' \<and> \<not> inverted (constructor a) \<longrightarrow>
      fallback (constructor a) err opts =
        (if nullish (disabledEmpty opts)
         then Inl (if err = [] then PlainError else ArgErr (ArgumentError_of err))
         else Inr (disabledEmpty opts))) \<and>
   (value_opt (constructor a) = Some '''' \<and> inverted (constructor a) \<longrightarrow>
      fallback (constructor a) err opts =
        (if nullish (enabledEmpty opts)
         then Inl (if err = [] then PlainError else ArgErr (ArgumentError_of err))
         else Inr (enabledEmpty opts))) \<and>
   (value_opt (constructor a) = Some s \<and> s \<noteq> '''' \<longrightarrow>
      fallback (constructor a) err opts = Inr (Str s))"
  by (simp add: fallback_def error_throws)

text \<open>
  The theorem at the five tokens of the specification's example, through \<open>string_arg\<close>,
  and at \<open>--x\<close> without options.
\<close>

theorem fallback_table_witness:
  "string_arg (constructor ''--x'')
     (\<lparr> enabled = Str ''A'', disabled = Str ''B'', enabledEmpty = Str ''C'',
        disabledEmpty = Str ''D'' \<rparr> :: (int, bool) FallbackOptions) = Inr (Str ''A'') \<and>
   string_arg (constructor ''--no-x'')
     (\<lparr> enabled = Str ''A'', disabled = Str ''B'', enabledEmpty = Str ''C'',
        disabledEmpty = Str ''D'' \<rparr> :: (int, bool) FallbackOptions) = Inr (Str ''B'') \<and>
   string_arg (constructor ''--x='')
     (\<lparr> enabled = Str ''A'', disabled = Str ''B'', enabledEmpty = Str ''C'',
        disabledEmpty = Str ''D'' \<rparr> :: (int, bool) FallbackOptions) = Inr (Str ''D'') \<and>
   string_arg (constructor ''--no-x='')
     (\<lparr> enabled = Str ''A'', disabled = Str ''B'', enabledEmpty = Str ''C'',
        disabledEmpty = Str ''D'' \<rparr> :: (int, bool) FallbackOptions) = Inr (Str ''C'') \<and>
   string_arg (constructor ''--x=val'')
     (\<lparr> enabled = Str ''A'', disabled = Str ''B'', enabledEmpty = Str ''C'',
        disabledEmpty = Str ''D'' \<rparr> :: (int, bool) FallbackOptions) = Inr (Str ''val'') \<and>
   string_arg (constructor ''--no-x=val'')
     (\<lparr> enabled = Str ''A'', disabled = Str ''B'', enabledEmpty = Str ''C'',
        disabledEmpty = Str ''D'' \<rparr> :: (int, bool) FallbackOptions) = Inr (Str ''val'') \<and>
   fallback (constructor ''--x'') ''required'' (no_options :: (int, bool) FallbackOptions) =
     Inl (ArgErr (ArgumentError_of ''required''))"
proof -
  let ?P = "\<lparr> enabled = Str ''A'', disabled = Str ''B'', enabledEmpty = Str ''C'',
              disabledEmpty = Str ''D'' \<rparr> :: (int, bool) FallbackOptions"
  show ?thesis
    using fallback_table [of "''--x''" "string_error (constructor ''--x'')" ?P "[]"]
      fallback_table [of "''--no-x''" "string_error (constructor ''--no-x'')" ?P "[]"]
      fallback_table [of "''--x=''" "string_error (constructor ''--x='')" ?P "[]"]
      fallback_table [of "''--no-x=''" "string_error (constructor ''--no-x='')" ?P "[]"]
      fallback_table [of "''--x=val''" "string_error (constructor ''--x=val'')" ?P "''val''"]
      fallback_table [of "''--no-x=val''" "string_error (constructor ''--no-x=val'')" ?P
        "''val''"]
      fallback_table [of "''--x''" "''required''" "no_options :: (int, bool) FallbackOptions"
        "[]"]
    by (simp add: string_arg_def tokens_x no_options_def)
qed

subsection \<open>Boolean coercion\<close>

text \<open>
  Claim C2. \<open>boolean\<close> takes the token alone, no options. Without a value or with the
  empty value it returns the negation of \<open>inverted\<close>. A value that is one of \<open>true\<close>,
  \<open>1\<close>, \<open>yes\<close>, \<open>y\<close>, \<open>on\<close> (compared exactly, so case matters) gives true, or false when
  inverted; one of \<open>false\<close>, \<open>0\<close>, \<open>no\<close>, \<open>n\<close>, \<open>off\<close> gives false, or true when
  inverted. Any other value throws an error whose message contains
  \<open>must have a boolean value\<close>.
\<close>

theorem boolean_coercion:
  "(value_opt (constructor a) = None \<or> value_opt (constructor a) = Some '''' \<longrightarrow>
      boolean (constructor a) = Inr (\<not> inverted (constructor a))) \<and>
   (value_opt (constructor a) = Some v \<and> v \<in> {''true'', ''1'', ''yes'', ''y'', ''on''} \<longrightarrow>
      boolean (constructor a) = Inr (\<not> inverted (constructor a))) \<and>
   (value_opt (constructor a) = Some v \<and> v \<in> {''false'', ''0'', ''no'', ''n'', ''off''} \<longrightarrow>
      boolean (constructor a) = Inr (inverted (constructor a))) \<and>
   (value_opt (constructor a) = Some v \<and> v \<noteq> '''' \<and>
    v \<notin> {''true'', ''1'', ''yes'', ''y'', ''on''} \<and>
    v \<notin> {''false'', ''0'', ''no'', ''n'', ''off''} \<longrightarrow>
      boolean (constructor a) =
        Inl (ArgErr (ArgumentError_of (boolean_error (constructor a)))) \<and>
      sublist ''must have a boolean value''
        (message (ArgumentError_of (boolean_error (constructor a)))))"
proof -
  have m: "message (ArgumentError_of (boolean_error (constructor a))) =
      boolean_error (constructor a)"
    by (simp add: ArgumentError_of_def)
  show ?thesis
    unfolding m
    by (auto simp: boolean_def constructor_truthy constructor_falsey error_throws
        boolean_message boolean_error_not_empty)
qed

text \<open>
  The theorem at the four tokens of the specification's example, at \<open>--no-flag=\<close>, at
  \<open>--flag=yes\<close> and \<open>--no-flag=on\<close>, and at \<open>--flag=Yes\<close>, which is not in the
  vocabulary because of its capital letter.
\<close>

theorem boolean_coercion_witness:
  "boolean (constructor ''--flag'') = Inr True \<and>
   boolean (constructor ''--no-flag'') = Inr False \<and>
   boolean (constructor ''--no-flag='') = Inr False \<and>
   boolean (constructor ''--flag=no'') = Inr False \<and>
   boolean (constructor ''--no-flag=no'') = Inr True \<and>
   boolean (constructor ''--flag=yes'') = Inr True \<and>
   boolean (constructor ''--no-flag=on'') = Inr False \<and>
   value_opt (constructor ''--flag=Yes'') = Some ''Yes'' \<and>
   (\<exists>e. boolean (constructor ''--flag=Yes'') = Inl (ArgErr e) \<and>
        sublist ''must have a boolean value'' (message e))"
  using boolean_coercion [of "''--flag''" "[]"] boolean_coercion [of "''--no-flag''" "[]"]
    boolean_coercion [of "''--no-flag=''" "[]"]
    boolean_coercion [of "''--flag=no''" "''no''"]
    boolean_coercion [of "''--no-flag=no''" "''no''"]
    boolean_coercion [of "''--flag=yes''" "''yes''"]
    boolean_coercion [of "''--no-flag=on''" "''on''"]
    boolean_coercion [of "''--flag=Yes''" "''Yes''"]
  by (simp add: tokens_flag)

subsection \<open>Number coercion\<close>

text \<open>
  Claim C6. \<open>number\<close> first resolves the token through \<open>fallback\<close>, whose failure it
  passes on. A resolved value that is \<open>null\<close> or the empty string counts as not a
  number; any other resolved value is converted with \<open>Number\<close>. The result is the
  converted number, and an error whose message contains \<open>must have a number value\<close> is
  thrown exactly when the number is \<open>NaN\<close>. A slot that holds a proper number is returned
  as that number.
\<close>

theorem number_coercion:
  "(fallback (constructor a) (number_error (constructor a)) opts = Inl e \<longrightarrow>
      number str_num other_num (constructor a) opts = Inl e) \<and>
   (fallback (constructor a) (number_error (constructor a)) opts = Inr v \<and>
    (nullish v \<or> v = Str '''') \<longrightarrow>
      number str_num other_num (constructor a) opts =
        Inl (ArgErr (ArgumentError_of (number_error (constructor a))))) \<and>
   (fallback (constructor a) (number_error (constructor a)) opts = Inr v \<and>
    \<not> nullish v \<and> v \<noteq> Str '''' \<longrightarrow>
      number str_num other_num (constructor a) opts =
        (case Number str_num other_num v of
           NaN \<Rightarrow> Inl (ArgErr (ArgumentError_of (number_error (constructor a))))
         | Num x \<Rightarrow> Inr (Num x))) \<and>
   (fallback (constructor a) (number_error (constructor a)) opts = Inr (Numv (Num x)) \<longrightarrow>
      number str_num other_num (constructor a) opts = Inr (Num x)) \<and>
   (number str_num other_num (constructor a) opts = Inl e \<longrightarrow>
      (\<exists>x. e = ArgErr x \<and> sublist ''must have a number value'' (message x)))"
proof (intro conjI impI)
  assume "number str_num other_num (constructor a) opts = Inl e"
  then have "e = ArgErr (ArgumentError_of (number_error (constructor a)))"
    by (rule number_failure)
  then show "\<exists>x. e = ArgErr x \<and> sublist ''must have a number value'' (message x)"
    by (simp add: number_message ArgumentError_of_def)
qed (auto simp: number_def Let_def error_throws number_error_not_empty
    split: jsnumber.splits)

text \<open>
  The theorem with a conversion that reads \<open>42\<close> as the number 42 and any other string
  as \<open>NaN\<close>: \<open>--n=42\<close> gives 42, \<open>--n=abc\<close> throws, \<open>--n\<close> with the slot \<open>enabled\<close> set to
  the number 1 gives 1, \<open>--n\<close> with that slot set to the empty string throws, and \<open>--n\<close>
  without options throws.
\<close>

theorem number_coercion_witness:
  "number (\<lambda>s. if s = ''42'' then Num 42 else NaN) (\<lambda>b. NaN) (constructor ''--n=42'')
     (no_options :: (int, bool) FallbackOptions) = Inr (Num 42) \<and>
   (\<exists>e. number (\<lambda>s. if s = ''42'' then Num 42 else NaN) (\<lambda>b. NaN) (constructor ''--n=abc'')
          (no_options :: (int, bool) FallbackOptions) = Inl (ArgErr e) \<and>
        sublist ''must have a number value'' (message e)) \<and>
   number (\<lambda>s. if s = ''42'' then Num 42 else NaN) (\<lambda>b. NaN) (constructor ''--n'')
     (no_options \<lparr> enabled := Numv (Num 1) \<rparr> :: (int, bool) FallbackOptions) = Inr (Num 1) \<and>
   (\<exists>e. number (\<lambda>s. if s = ''42'' then Num 42 else NaN) (\<lambda>b. NaN) (constructor ''--n'')
          (no_options \<lparr> enabled := Str '''' \<rparr> :: (int, bool) FallbackOptions) =
            Inl (ArgErr e) \<and>
        sublist ''must have a number value'' (message e)) \<and>
   (\<exists>e. number (\<lambda>s. if s = ''42'' then Num 42 else NaN) (\<lambda>b. NaN) (constructor ''--n'')
          (no_options :: (int, bool) FallbackOptions) = Inl (ArgErr e) \<and>
        sublist ''must have a number value'' (message e))"
proof -
  let ?sn = "\<lambda>s. if s = ''42'' then Num (42 :: int) else NaN"
  let ?on = "\<lambda>b :: bool. (NaN :: int jsnumber)"
  have f: "fallback (constructor ''--n=42'') (number_error (constructor ''--n=42''))
             (no_options :: (int, bool) FallbackOptions) = Inr (Str ''42'')"
    "fallback (constructor ''--n=abc'') (number_error (constructor ''--n=abc''))
             (no_options :: (int, bool) FallbackOptions) = Inr (Str ''abc'')"
    "fallback (constructor ''--n'') (number_error (constructor ''--n''))
             (no_options \<lparr> enabled := Numv (Num 1) \<rparr> :: (int, bool) FallbackOptions) =
       Inr (Numv (Num 1))"
    "fallback (constructor ''--n'') (number_error (constructor ''--n''))
             (no_options \<lparr> enabled := Str '''' \<rparr> :: (int, bool) FallbackOptions) =
       Inr (Str '''')"
    "fallback (constructor ''--n'') (number_error (constructor ''--n''))
             (no_options :: (int, bool) FallbackOptions) =
       Inl (ArgErr (ArgumentError_of (number_error (constructor ''--n''))))"
    by (simp_all add: fallback_def tokens_n no_options_def error_throws
        number_error_not_empty)
  have m: "message (ArgumentError_of (number_error t)) = number_error t" for t
    by (simp add: ArgumentError_of_def)
  show ?thesis
    using number_coercion [of "''--n=42''" no_options _ ?sn ?on "Str ''42''"]
      number_coercion [of "''--n=abc''" no_options _ ?sn ?on "Str ''abc''"]
      number_coercion [of "''--n''" "no_options \<lparr> enabled := Numv (Num 1) \<rparr>" _ ?sn ?on _ 1]
      number_coercion [of "''--n''" "no_options \<lparr> enabled := Str '''' \<rparr>" _ ?sn ?on "Str ''''"]
      number_coercion [of "''--n''" no_options
        "ArgErr (ArgumentError_of (number_error (constructor ''--n'')))" ?sn ?on]
    by (simp add: f m number_message)
qed

subsection \<open>What a failure carries\<close>

text \<open>
  Claim C8, as amended. Every failure of the typed coercions \<open>string_arg\<close>, \<open>number\<close>
  and \<open>boolean\<close> is an \<open>ArgumentError\<close> with exit code 22 and code \<open>EINVAL\<close>. A failure
  of \<open>fallback\<close> is one too whenever the message it was called with is not empty, and
  then, when the slot that the token's case selects is absent, the message of the error
  is exactly that message. Called with the empty message, \<open>fallback\<close> fails with the
  plain error of the base class.
\<close>

theorem failure_payload:
  "(err \<noteq> [] \<and> fallback (constructor a) err opts = Inl e \<longrightarrow>
      (\<exists>x. e = ArgErr x \<and> exitCode x = 22 \<and> code x = ''EINVAL'' \<and> message x = err)) \<and>
   (string_arg (constructor a) opts = Inl e \<longrightarrow>
      (\<exists>x. e = ArgErr x \<and> exitCode x = 22 \<and> code x = ''EINVAL'')) \<and>
   (number str_num other_num (constructor a) opts = Inl e \<longrightarrow>
      (\<exists>x. e = ArgErr x \<and> exitCode x = 22 \<and> code x = ''EINVAL'')) \<and>
   (boolean (constructor a) = Inl e \<longrightarrow>
      (\<exists>x. e = ArgErr x \<and> exitCode x = 22 \<and> code x = ''EINVAL'')) \<and>
   (err \<noteq> [] \<and> value_opt (constructor a) = None \<and> \<not> inverted (constructor a) \<and>
    enabled opts = Undefined \<longrightarrow>
      (\<exists>x. fallback (constructor a) err opts = Inl (ArgErr x) \<and> message x = err)) \<and>
   (err \<noteq> [] \<and> value_opt (constructor a) = None \<and> inverted (constructor a) \<and>
    disabled opts = Undefined \<longrightarrow>
      (\<exists>x. fallback (constructor a) err opts = Inl (ArgErr x) \<and> message x = err)) \<and>
   (err \<noteq> [] \<and> value_opt (constructor a) = Some '''' \<and> \<not> inverted (constructor a) \<and>
    disabledEmpty opts = Undefined \<longrightarrow>
      (\<exists>x. fallback (constructor a) err opts = Inl (ArgErr x) \<and> message x = err)) \<and>
   (err \<noteq> [] \<and> value_opt (constructor a) = Some '''' \<and> inverted (constructor a) \<and>
    enabledEmpty opts = Undefined \<longrightarrow>
      (\<exists>x. fallback (constructor a) err opts = Inl (ArgErr x) \<and> message x = err)) \<and>
   (fallback (constructor a) [] opts = Inl e \<longrightarrow> e = PlainError)"
proof -
  have p: "exitCode (ArgumentError_of m) = 22 \<and> code (ArgumentError_of m) = ''EINVAL'' \<and>
      message (ArgumentError_of m) = m" for m
    by (simp add: ArgumentError_of_def)
  have "\<exists>x. e = ArgErr x \<and> exitCode x = 22 \<and> code x = ''EINVAL'' \<and> message x = err"
    if "err \<noteq> []" "fallback (constructor a) err opts = Inl e"
    using fallback_failure [OF that(2)] that(1) p by simp
  moreover have "\<exists>x. e = ArgErr x \<and> exitCode x = 22 \<and> code x = ''EINVAL''"
    if "string_arg (constructor a) opts = Inl e"
    using string_failure [OF that] p by simp
  moreover have "\<exists>x. e = ArgErr x \<and> exitCode x = 22 \<and> code x = ''EINVAL''"
    if "number str_num other_num (constructor a) opts = Inl e"
    using number_failure [OF that] p by simp
  moreover have "\<exists>x. e = ArgErr x \<and> exitCode x = 22 \<and> code x = ''EINVAL''"
    if "boolean (constructor a) = Inl e"
    using boolean_failure [OF that] p by simp
  moreover have "e = PlainError" if "fallback (constructor a) [] opts = Inl e"
    using fallback_failure [OF that] by simp
  ultimately show ?thesis
    using p by (simp add: fallback_def error_throws)
qed

text \<open>
  The theorem with the message \<open>required\<close> at \<open>--x\<close>, \<open>--no-x\<close>, \<open>--x=\<close> and \<open>--no-x=\<close>
  without options, at \<open>--n=abc\<close> with a conversion that reads no string as a number, at
  \<open>--flag=Yes\<close>, and with the empty message at \<open>--x\<close>.
\<close>

theorem failure_payload_witness:
  "''required'' \<noteq> [] \<and>
   (\<exists>x. fallback (constructor ''--x'') ''required''
          (no_options :: (int, bool) FallbackOptions) = Inl (ArgErr x) \<and>
        message x = ''required'' \<and> exitCode x = 22 \<and> code x = ''EINVAL'') \<and>
   (\<exists>x. fallback (constructor ''--no-x'') ''required''
          (no_options :: (int, bool) FallbackOptions) = Inl (ArgErr x) \<and>
        message x = ''required'') \<and>
   (\<exists>x. fallback (constructor ''--x='') ''required''
          (no_options :: (int, bool) FallbackOptions) = Inl (ArgErr x) \<and>
        message x = ''required'') \<and>
   (\<exists>x. fallback (constructor ''--no-x='') ''required''
          (no_options :: (int, bool) FallbackOptions) = Inl (ArgErr x) \<and>
        message x = ''required'') \<and>
   (\<exists>x. string_arg (constructor ''--x'') (no_options :: (int, bool) FallbackOptions) =
          Inl (ArgErr x) \<and>
        exitCode x = 22 \<and> code x = ''EINVAL'') \<and>
   (\<exists>x. number (\<lambda>s. NaN) (\<lambda>b. NaN) (constructor ''--n=abc'')
          (no_options :: (int, bool) FallbackOptions) = Inl (ArgErr x) \<and>
        exitCode x = 22 \<and> code x = ''EINVAL'') \<and>
   (\<exists>x. boolean (constructor ''--flag=Yes'') = Inl (ArgErr x) \<and>
        exitCode x = 22 \<and> code x = ''EINVAL'') \<and>
   fallback (constructor ''--x'') [] (no_options :: (int, bool) FallbackOptions) =
     Inl PlainError"
proof -
  let ?N = "no_options :: (int, bool) FallbackOptions"
  let ?sn = "\<lambda>s :: string. (NaN :: int jsnumber)"
  let ?on = "\<lambda>b :: bool. (NaN :: int jsnumber)"
  let ?R = "ArgErr (ArgumentError_of ''required'')"
  have u: "enabled ?N = Undefined" "disabled ?N = Undefined" "enabledEmpty ?N = Undefined"
    "disabledEmpty ?N = Undefined"
    by (simp_all add: no_options_def)
  have f: "fallback (constructor ''--x'') ''required'' ?N = Inl ?R"
    "fallback (constructor ''--x'') [] ?N = Inl PlainError"
    by (simp_all add: fallback_def tokens_x u error_throws)
  have s: "string_arg (constructor ''--x'') ?N =
      Inl (ArgErr (ArgumentError_of (string_error (constructor ''--x''))))"
    by (simp add: string_arg_def fallback_def tokens_x u error_throws string_error_not_empty)
  have n: "number ?sn ?on (constructor ''--n=abc'') ?N =
      Inl (ArgErr (ArgumentError_of (number_error (constructor ''--n=abc''))))"
    by (simp add: number_def fallback_def tokens_n error_throws number_error_not_empty)
  have b: "boolean (constructor ''--flag=Yes'') =
      Inl (ArgErr (ArgumentError_of (boolean_error (constructor ''--flag=Yes''))))"
    by (simp add: boolean_def tokens_flag constructor_truthy constructor_falsey error_throws
        boolean_error_not_empty)
  have a1: "\<exists>x. fallback (constructor ''--x'') ''required'' ?N = Inl (ArgErr x) \<and>
      message x = ''required'' \<and> exitCode x = 22 \<and> code x = ''EINVAL''"
    using failure_payload [of "''required''" "''--x''" ?N ?R ?sn ?on] f(1) by simp
  have a2: "\<exists>x. fallback (constructor ''--no-x'') ''required'' ?N = Inl (ArgErr x) \<and>
      message x = ''required''"
    using failure_payload [of "''required''" "''--no-x''" ?N ?R ?sn ?on]
    by (simp add: tokens_x u)
  have a3: "\<exists>x. fallback (constructor ''--x='') ''required'' ?N = Inl (ArgErr x) \<and>
      message x = ''required''"
    using failure_payload [of "''required''" "''--x=''" ?N ?R ?sn ?on]
    by (simp add: tokens_x u)
  have a4: "\<exists>x. fallback (constructor ''--no-x='') ''required'' ?N = Inl (ArgErr x) \<and>
      message x = ''required''"
    using failure_payload [of "''required''" "''--no-x=''" ?N ?R ?sn ?on]
    by (simp add: tokens_x u)
  have a5: "\<exists>x. string_arg (constructor ''--x'') ?N = Inl (ArgErr x) \<and>
      exitCode x = 22 \<and> code x = ''EINVAL''"
    using failure_payload [of "''required''" "''--x''" ?N
        "ArgErr (ArgumentError_of (string_error (constructor ''--x'')))" ?sn ?on] s
    by simp
  have a6: "\<exists>x. number ?sn ?on (constructor ''--n=abc'') ?N = Inl (ArgErr x) \<and>
      exitCode x = 22 \<and> code x = ''EINVAL''"
    using failure_payload [of "''required''" "''--n=abc''" ?N
        "ArgErr (ArgumentError_of (number_error (constructor ''--n=abc'')))" ?sn ?on] n
    by simp
  have a7: "\<exists>x. boolean (constructor ''--flag=Yes'') = Inl (ArgErr x) \<and>
      exitCode x = 22 \<and> code x = ''EINVAL''"
    using failure_payload [of "''required''" "''--flag=Yes''" ?N
        "ArgErr (ArgumentError_of (boolean_error (constructor ''--flag=Yes'')))" ?sn ?on] b
    by simp
  have a8: "fallback (constructor ''--x'') [] ?N = Inl PlainError"
    using failure_payload [of "''required''" "''--x''" ?N PlainError ?sn ?on] f(2) by simp
  show ?thesis
    using a1 a2 a3 a4 a5 a6 a7 a8 by simp
qed

text \<open>
  Claim C8 as it was stated fails. Called with the empty message for the token \<open>--x\<close>
  without options, \<open>fallback\<close> fails, but what it throws is the plain error of the base
  class, which carries no exit code 22 and no code \<open>EINVAL\<close>; it is not the
  \<open>ArgumentError\<close> with the message that was supplied.
\<close>

theorem failure_payload_counterexample:
  "fallback (constructor ''--x'') '''' (no_options :: (int, bool) FallbackOptions) =
     Inl PlainError \<and>
   fallback (constructor ''--x'') '''' (no_options :: (int, bool) FallbackOptions) \<noteq>
     Inl (ArgErr (ArgumentError_of ''''))"
  by (simp add: fallback_def tokens_x no_options_def error_throws)

subsection \<open>A slot set to null\<close>

text \<open>
  Claim C10. A slot that is explicitly \<open>null\<close> behaves as an absent slot: replacing the
  one by the other in any of the four slots does not change the result of \<open>fallback\<close>,
  and a token whose case selects a \<open>null\<close> slot makes \<open>fallback\<close> throw: the
  \<open>ArgumentError\<close> with the given message, or the plain error of the base class when
  that message is empty. Hence \<open>fallback\<close> never returns \<open>null\<close> (nor \<open>undefined\<close>).
\<close>

theorem null_slot_is_absent:
  "fallback (constructor a) err (opts \<lparr> enabled := Null \<rparr>) =
     fallback (constructor a) err (opts \<lparr> enabled := Undefined \<rparr>) \<and>
   fallback (constructor a) err (opts \<lparr> disabled := Null \<rparr>) =
     fallback (constructor a) err (opts \<lparr> disabled := Undefined \<rparr>) \<and>
   fallback (constructor a) err (opts \<lparr> enabledEmpty := Null \<rparr>) =
     fallback (constructor a) err (opts \<lparr> enabledEmpty := Undefined \<rparr>) \<and>
   fallback (constructor a) err (opts \<lparr> disabledEmpty := Null \<rparr>) =
     fallback (constructor a) err (opts \<lparr> disabledEmpty := Undefined \<rparr>) \<and>
   (value_opt (constructor a) = None \<and> \<not> inverted (constructor a) \<and> enabled opts = Null \<longrightarrow>
      fallback (constructor a) err opts =
        Inl (if err = [] then PlainError else ArgErr (ArgumentError_of err))) \<and>
   (value_opt (constructor a) = None \<and> inverted (constructor a) \<and> disabled opts = Null \<longrightarrow>
      fallback (constructor a) err opts =
        Inl (if err = [] then PlainError else ArgErr (ArgumentError_of err))) \<and>
   (value_opt (constructor a) = Some '''' \<and> \<not> inverted (constructor a) \<and>
    disabledEmpty opts = Null \<longrightarrow>
      fallback (constructor a) err opts =
        Inl (if err = [] then PlainError else ArgErr (ArgumentError_of err))) \<and>
   (value_opt (constructor a) = Some '''' \<and> inverted (constructor a) \<and>
    enabledEmpty opts = Null \<longrightarrow>
      fallback (constructor a) err opts =
        Inl (if err = [] then PlainError else ArgErr (ArgumentError_of err))) \<and>
   (fallback (constructor a) err opts = Inr v \<longrightarrow> v \<noteq> Null \<and> v \<noteq> Undefined)"
proof -
  have "v \<noteq> Null \<and> v \<noteq> Undefined" if "fallback (constructor a) err opts = Inr v"
    using that by (auto simp: fallback_def error_throws split: option.splits if_splits)
  then show ?thesis
    by (simp add: fallback_def error_throws split: option.splits)
qed

text \<open>
  The theorem at the four tokens \<open>--x\<close>, \<open>--no-x\<close>, \<open>--x=\<close> and \<open>--no-x=\<close>, each with
  the slot of its case set to \<open>null\<close> and the other three to a string, and at \<open>--x=val\<close>.
\<close>

theorem null_slot_is_absent_witness:
  "fallback (constructor ''--x'') ''required''
     (\<lparr> enabled = Null, disabled = Str ''B'', enabledEmpty = Str ''C'',
        disabledEmpty = Str ''D'' \<rparr> :: (int, bool) FallbackOptions) =
     Inl (ArgErr (ArgumentError_of ''required'')) \<and>
   fallback (constructor ''--no-x'') ''required''
     (\<lparr> enabled = Str ''A'', disabled = Null, enabledEmpty = Str ''C'',
        disabledEmpty = Str ''D'' \<rparr> :: (int, bool) FallbackOptions) =
     Inl (ArgErr (ArgumentError_of ''required'')) \<and>
   fallback (constructor ''--x='') ''required''
     (\<lparr> enabled = Str ''A'', disabled = Str ''B'', enabledEmpty = Str ''C'',
        disabledEmpty = Null \<rparr> :: (int, bool) FallbackOptions) =
     Inl (ArgErr (ArgumentError_of ''required'')) \<and>
   fallback (constructor ''--no-x='') ''required''
     (\<lparr> enabled = Str ''A'', disabled = Str ''B'', enabledEmpty = Null,
        disabledEmpty = Str ''D'' \<rparr> :: (int, bool) FallbackOptions) =
     Inl (ArgErr (ArgumentError_of ''required'')) \<and>
   fallback (constructor ''--x=val'') ''required''
     (\<lparr> enabled = Null, disabled = Null, enabledEmpty = Null,
        disabledEmpty = Null \<rparr> :: (int, bool) FallbackOptions) = Inr (Str ''val'') \<and>
   Str ''val'' \<noteq> (Null :: (int, bool) jsval)"
proof -
  let ?P1 = "\<lparr> enabled = Null, disabled = Str ''B'', enabledEmpty = Str ''C'',
              disabledEmpty = Str ''D'' \<rparr> :: (int, bool) FallbackOptions"
  let ?P2 = "\<lparr> enabled = Str ''A'', disabled = Null, enabledEmpty = Str ''C'',
              disabledEmpty = Str ''D'' \<rparr> :: (int, bool) FallbackOptions"
  let ?P3 = "\<lparr> enabled = Str ''A'', disabled = Str ''B'', enabledEmpty = Str ''C'',
              disabledEmpty = Null \<rparr> :: (int, bool) FallbackOptions"
  let ?P4 = "\<lparr> enabled = Str ''A'', disabled = Str ''B'', enabledEmpty = Null,
              disabledEmpty = Str ''D'' \<rparr> :: (int, bool) FallbackOptions"
  let ?P5 = "\<lparr> enabled = Null, disabled = Null, enabledEmpty = Null,
              disabledEmpty = Null \<rparr> :: (int, bool) FallbackOptions"
  have v: "fallback (constructor ''--x=val'') ''required'' ?P5 = Inr (Str ''val'')"
    by (simp add: fallback_def tokens_x)
  have c1: "fallback (constructor ''--x'') ''required'' ?P1 = Inl (ArgErr (ArgumentError_of ''required''))"
    using null_slot_is_absent [of "''--x''" "''required''" ?P1 "Str ''val''",
        THEN conjunct2, THEN conjunct2, THEN conjunct2, THEN conjunct2, THEN conjunct1]
    by (simp add: tokens_x)
  have c2: "fallback (constructor ''--no-x'') ''required'' ?P2 =
      Inl (ArgErr (ArgumentError_of ''required''))"
    using null_slot_is_absent [of "''--no-x''" "''required''" ?P2 "Str ''val''",
        THEN conjunct2, THEN conjunct2, THEN conjunct2, THEN conjunct2, THEN conjunct2,
        THEN conjunct1]
    by (simp add: tokens_x)
  have c3: "fallback (constructor ''--x='') ''required'' ?P3 =
      Inl (ArgErr (ArgumentError_of ''required''))"
    using null_slot_is_absent [of "''--x=''" "''required''" ?P3 "Str ''val''",
        THEN conjunct2, THEN conjunct2, THEN conjunct2, THEN conjunct2, THEN conjunct2,
        THEN conjunct2, THEN conjunct1]
    by (simp add: tokens_x)
  have c4: "fallback (constructor ''--no-x='') ''required'' ?P4 =
      Inl (ArgErr (ArgumentError_of ''required''))"
    using null_slot_is_absent [of "''--no-x=''" "''required''" ?P4 "Str ''val''",
        THEN conjunct2, THEN conjunct2, THEN conjunct2, THEN conjunct2, THEN conjunct2,
        THEN conjunct2, THEN conjunct2, THEN conjunct1]
    by (simp add: tokens_x)
  have c5: "Str ''val'' \<noteq> (Null :: (int, bool) jsval)"
    using null_slot_is_absent [of "''--x=val''" "''required''" ?P5 "Str ''val''",
        THEN conjunct2, THEN conjunct2, THEN conjunct2, THEN conjunct2, THEN conjunct2,
        THEN conjunct2, THEN conjunct2, THEN conjunct2] v
    by simp
  show ?thesis
    using c1 c2 c3 c4 c5 v by simp
qed

section \<open>Totality of the classifier, partiality of the resolver\<close>

lemma fallback_fails_iff:
  "(\<exists>e. fallback this err opts = Inl e) \<longleftrightarrow>
     (case value_opt this of
        None \<Rightarrow> nullish (if inverted this then disabled opts else enabled opts)
      | Some v \<Rightarrow>
          v = '''' \<and> nullish (if inverted this then enabledEmpty opts else disabledEmpty opts))"
  by (simp add: fallback_def error_throws split: option.splits)

lemma boolean_fails_iff:
  "(\<exists>e. boolean this = Inl e) \<longleftrightarrow>
     (\<exists>v. value_opt this = Some v \<and> v \<noteq> '''' \<and> v \<notin> set (truthy this) \<and>
          v \<notin> set (falsey this))"
  by (simp add: boolean_def error_throws split: option.splits)

lemma constructor_well_formed: "spec_well_formed (constructor a)"
proof (cases "a = ''--''")
  case True
  then show ?thesis
    by (simp add: constructor_sentinel spec_well_formed_def spec_sentinel_def
        spec_positional_def)
next
  case ne: False
  show ?thesis
  proof (cases "startsWith a ''--''")
    case False
    then show ?thesis
      by (simp add: constructor_positional spec_well_formed_def spec_sentinel_def
          spec_positional_def)
  next
    case True
    from True ne show ?thesis
    proof (cases rule: flag_shapes)
      case (1 b)
      have "constructor a =
         \<lparr> arg = ''--'' @ b, key = (if prefix ''no-'' b then drop 3 b else b),
           value_opt = None, flag = True, inverted = prefix ''no-'' b,
           truthy = [''true'', ''1'', ''yes'', ''y'', ''on''],
           falsey = [''false'', ''0'', ''no'', ''n'', ''off''] \<rparr>"
        using constructor_no_eq [OF 1(2,3)] 1(1) by simp
      with 1(3) show ?thesis
        by (simp add: spec_well_formed_def spec_sentinel_def spec_positional_def)
    next
      case (2 k v)
      have "constructor a =
         \<lparr> arg = ''--'' @ k @ ''='' @ v, key = (if prefix ''no-'' k then drop 3 k else k),
           value_opt = Some v, flag = True, inverted = prefix ''no-'' k,
           truthy = [''true'', ''1'', ''yes'', ''y'', ''on''],
           falsey = [''false'', ''0'', ''no'', ''n'', ''off''] \<rparr>"
        using constructor_eq [OF 2(2), of v] 2(1) by simp
      then show ?thesis
        by (simp add: spec_well_formed_def spec_sentinel_def spec_positional_def)
    qed
  qed
qed

text \<open>
  Claim C7. The constructor has no throwing path, so its model is a function from
  strings to records, without an error result: it returns a record for every string.
  That record keeps the raw text and is well formed in the sense of the specification.
  The resolver is partial: \<open>fallback\<close> fails exactly when the token has no value or the
  empty value and the slot of its case holds nothing, and \<open>boolean\<close> fails exactly when
  the value is non-empty and in neither vocabulary.
\<close>

theorem classifier_total:
  "(\<exists>t. constructor a = t \<and> arg t = a \<and> spec_well_formed t) \<and>
   ((\<exists>e. fallback (constructor a) err opts = Inl e) \<longleftrightarrow>
      (case value_opt (constructor a) of
         None \<Rightarrow> nullish (if inverted (constructor a) then disabled opts else enabled opts)
       | Some v \<Rightarrow>
           v = '''' \<and>
           nullish (if inverted (constructor a) then enabledEmpty opts
                    else disabledEmpty opts))) \<and>
   ((\<exists>e. boolean (constructor a) = Inl e) \<longleftrightarrow>
      (\<exists>v. value_opt (constructor a) = Some v \<and> v \<noteq> '''' \<and>
           v \<notin> {''true'', ''1'', ''yes'', ''y'', ''on''} \<and>
           v \<notin> {''false'', ''0'', ''no'', ''n'', ''off''}))"
proof (intro conjI)
  show "\<exists>t. constructor a = t \<and> arg t = a \<and> spec_well_formed t"
    by (simp add: constructor_arg constructor_well_formed)
  show "(\<exists>e. fallback (constructor a) err opts = Inl e) \<longleftrightarrow>
      (case value_opt (constructor a) of
         None \<Rightarrow> nullish (if inverted (constructor a) then disabled opts else enabled opts)
       | Some v \<Rightarrow>
           v = '''' \<and>
           nullish (if inverted (constructor a) then enabledEmpty opts
                    else disabledEmpty opts))"
    by (rule fallback_fails_iff)
  show "(\<exists>e. boolean (constructor a) = Inl e) \<longleftrightarrow>
      (\<exists>v. value_opt (constructor a) = Some v \<and> v \<noteq> '''' \<and>
           v \<notin> {''true'', ''1'', ''yes'', ''y'', ''on''} \<and>
           v \<notin> {''false'', ''0'', ''no'', ''n'', ''off''})"
    using boolean_fails_iff [of "constructor a"]
    by (simp add: constructor_truthy constructor_falsey)
qed

text \<open>
  The theorem at the odd token \<open>--no-=\<close>, which still gives a well-formed record, at
  \<open>--x\<close> without options, where \<open>fallback\<close> fails, and at \<open>--x=val\<close>, where it does not.
\<close>

theorem classifier_total_witness:
  "arg (constructor ''--no-='') = ''--no-='' \<and> spec_well_formed (constructor ''--no-='') \<and>
   inverted (constructor ''--no-='') \<and> flag (constructor ''--no-='') \<and>
   (\<exists>e. fallback (constructor ''--x'') ''required''
          (no_options :: (int, bool) FallbackOptions) = Inl e) \<and>
   \<not> (\<exists>e. fallback (constructor ''--x=val'') ''required''
            (no_options :: (int, bool) FallbackOptions) = Inl e) \<and>
   \<not> (\<exists>e. boolean (constructor ''--x'') = Inl e)"
proof -
  have i: "inverted (constructor ''--no-='')" "flag (constructor ''--no-='')"
    by code_simp+
  show ?thesis
    using classifier_total [of "''--no-=''" "''required''"
        "no_options :: (int, bool) FallbackOptions"]
      classifier_total [of "''--x''" "''required''" "no_options :: (int, bool) FallbackOptions"]
      classifier_total [of "''--x=val''" "''required''"
        "no_options :: (int, bool) FallbackOptions"]
    by (simp add: tokens_x no_options_def i)
qed

section \<open>Properties of the process-exit adapter\<close>

lemma split_lines_not_Nil: "split_lines s \<noteq> []"
  by (induction s) (auto split: list.splits)

lemma split_lines_single_empty: "split_lines s = [[]] \<longleftrightarrow> s = []"
  by (cases s) (auto split: list.splits simp: split_lines_not_Nil)

lemma trimIndentation_throws_iff: "(\<exists>x. trimIndentation s = Inl x) \<longleftrightarrow> s = []"
proof -
  have "(\<exists>x. trimIndentation s = Inl x) \<longleftrightarrow> split_lines s = [[]]"
    by (auto simp: trimIndentation_def Let_def split_lines_not_Nil
        split: list.splits option.splits if_splits)
  then show ?thesis
    by (simp add: split_lines_single_empty)
qed

text \<open>
  With a non-empty help text, \<open>exit\<close> ends the process for an \<open>ArgumentError\<close> as
  intended: with code 0 when the error's message is the help text, with code 22 otherwise.
\<close>

lemma exit_argument_error:
  assumes "help_text \<noteq> []" "name \<noteq> []"
  shows "\<exists>out. Argument_exit help_text (Some (thrown_of name (ArgumentError_of msg))) =
           Inr \<lparr> stderr = out, status = (if msg = help_text then 0 else 22) \<rparr>"
proof -
  from assms(1) obtain t where t: "trimIndentation help_text = Inr t"
    using trimIndentation_throws_iff [of help_text] by (cases "trimIndentation help_text") auto
  have s: "Error_toString name msg \<noteq> []"
    using assms(2) by (simp add: Error_toString_def)
  show ?thesis
    using s by (simp add: thrown_of_def ArgumentError_of_def t Let_def)
qed

text \<open>
  Claim C9. For an \<open>ArgumentError\<close>, \<open>exit\<close> should end the process with code 0 when
  the error's message is the help text and with code 22 when it differs. With the empty
  help text and the error \<open>new ArgumentError("x")\<close>, the message differs from the help text,
  yet the process is not ended with code 22: \<open>trimIndentation\<close> throws a \<open>TypeError\<close>
  before \<open>exit\<close> reaches the call that ends the process.
\<close>

theorem exit_empty_help_throws:
  "new_ArgumentError ''x'' = Inr (ArgumentError_of ''x'') \<and>
   Argument_exit '''' (Some (thrown_of name (ArgumentError_of ''x''))) = Inl TypeError"
  by (simp add: new_ArgumentError_def thrown_of_def ArgumentError_of_def trimIndentation_def)

text \<open>
  A request for help, thrown by \<open>Argument.help\<close> and caught by \<open>Argument.catch\<close>, ends
  the process with code 0 when the help text is not empty.
\<close>

lemma help_exits_zero:
  assumes "help_text \<noteq> []" "name \<noteq> []"
    and "(Argument_help help_text :: thrown_error + unit) = Inl (ArgErr e)"
  shows "\<exists>out. Argument_catch help_text (Some (thrown_of name e)) =
           Inr \<lparr> stderr = out, status = 0 \<rparr>"
proof -
  from assms(1,3) have "e = ArgumentError_of help_text"
    by (simp add: Argument_help_def new_ArgumentError_def)
  then show ?thesis
    using exit_argument_error [OF assms(1,2), of help_text] by (simp add: Argument_catch_def)
qed

end
